theory Spec2Isabelle
  imports Main "HOL-Library.AList" "HOL-Library.Word"
begin

section \<open>Data model (internal/models/models.go)\<close>

text \<open>
  Go's \<open>int64\<close> counters are 64-bit words (\<open>++\<close> and \<open>--\<close> wrap around), a
  \<open>time.Time\<close> is an abstract integer time stamp, a \<open>*string\<close> is a \<open>string option\<close>
  (\<open>nil\<close> is \<open>None\<close>).  A \<open>sync.Map\<close> is an association list: \<open>Load\<close> looks a key
  up, \<open>Store\<close> overwrites the entry of a key that is present and adds an entry
  otherwise, \<open>Delete\<close> removes the entry, and \<open>Range\<close> visits the stored values in
  the order of the list (Go leaves the order unspecified; the list order is one of them).
  Field names carry the name of their struct as a prefix.
\<close>

type_synonym int64 = "64 word"
type_synonym time = int
type_synonym ('k, 'v) syncMap = "('k \<times> 'v) list"

definition Load :: "('k, 'v) syncMap \<Rightarrow> 'k \<Rightarrow> 'v option" where
  "Load m k = map_of m k"

definition Store :: "'k \<Rightarrow> 'v \<Rightarrow> ('k, 'v) syncMap \<Rightarrow> ('k, 'v) syncMap" where
  "Store k v m = AList.update k v m"

definition Delete :: "'k \<Rightarrow> ('k, 'v) syncMap \<Rightarrow> ('k, 'v) syncMap" where
  "Delete k m = AList.delete k m"

definition RangeValues :: "('k, 'v) syncMap \<Rightarrow> 'v list" where
  "RangeValues m = map snd m"

record User =
  User_ID :: string
  User_Username :: string
  User_Password :: string
  User_Karma :: int64
  User_IsOnline :: bool
  User_CreatedAt :: time

record SubReddit =
  SubReddit_ID :: string
  SubReddit_Name :: string
  SubReddit_Description :: string
  SubReddit_CreatorID :: string
  SubReddit_MemberCount :: int64
  SubReddit_PostCount :: int64
  SubReddit_CreatedAt :: time
  SubReddit_Members :: "(string, bool) syncMap"

record Post =
  Post_ID :: string
  Post_Title :: string
  Post_Content :: string
  Post_AuthorID :: string
  Post_SubRedditID :: string
  Post_IsRepost :: bool
  Post_OriginalID :: string
  Post_Upvotes :: int64
  Post_Downvotes :: int64
  Post_CommentCount :: int64
  Post_CreatedAt :: time

record Comment =
  Comment_ID :: string
  Comment_Content :: string
  Comment_AuthorID :: string
  Comment_PostID :: string
  Comment_ParentID :: "string option"
  Comment_Depth :: int
  Comment_Upvotes :: int64
  Comment_Downvotes :: int64
  Comment_CreatedAt :: time

record DirectMessage =
  DirectMessage_ID :: string
  DirectMessage_FromID :: string
  DirectMessage_ToID :: string
  DirectMessage_Content :: string
  DirectMessage_IsRead :: bool
  DirectMessage_CreatedAt :: time

record Vote =
  Vote_ID :: string
  Vote_UserID :: string
  Vote_TargetID :: string
  Vote_IsUpvote :: bool
  Vote_CreatedAt :: time

section \<open>The engine (internal/engine/engine.go)\<close>

record RedditEngine =
  users :: "(string, User) syncMap"
  subreddits :: "(string, SubReddit) syncMap"
  posts :: "(string, Post) syncMap"
  comments :: "(string, Comment) syncMap"
  messages :: "(string, DirectMessage) syncMap"
  votes :: "(string, Vote) syncMap"

definition NewRedditEngine :: RedditEngine where
  "NewRedditEngine =
     \<lparr>users = [], subreddits = [], posts = [], comments = [], messages = [], votes = []\<rparr>"

text \<open>
  Every error of the engine is an \<open>errors.New\<close> of a fixed message, except the error
  that \<open>bcrypt.GenerateFromPassword\<close> may return, which \<open>RegisterAccount\<close> passes on
  (\<open>BcryptError\<close>, with the library's message).
\<close>

datatype error =
    UsernameAlreadyExists
  | BcryptError string
  | UserNotFound
  | InvalidPassword
  | CreatorNotFound
  | SubredditNotFound
  | AuthorNotFound
  | NotAMember
  | PostNotFound
  | ParentCommentNotFound
  | TargetNotFound
  | SenderNotFound
  | RecipientNotFound
  | MessageNotFound
  | UnauthorizedAccess

fun Error :: "error \<Rightarrow> string" where
  "Error UsernameAlreadyExists = ''username already exists''"
| "Error (BcryptError msg) = msg"
| "Error UserNotFound = ''user not found''"
| "Error InvalidPassword = ''invalid password''"
| "Error CreatorNotFound = ''creator not found''"
| "Error SubredditNotFound = ''subreddit not found''"
| "Error AuthorNotFound = ''author not found''"
| "Error NotAMember = ''user is not a member of this subreddit''"
| "Error PostNotFound = ''post not found''"
| "Error ParentCommentNotFound = ''parent comment not found''"
| "Error TargetNotFound = ''target not found''"
| "Error SenderNotFound = ''sender not found''"
| "Error RecipientNotFound = ''recipient not found''"
| "Error MessageNotFound = ''message not found''"
| "Error UnauthorizedAccess = ''unauthorized access to message''"

text \<open>
  The engine reads three things from outside: the identifier \<open>generateID()\<close> returns
  (32 hex digits of 16 random bytes), the clock \<open>time.Now()\<close>, and the salted hash of
  \<open>bcrypt.GenerateFromPassword\<close>, which may fail (\<open>Inl\<close> of the library's message).
  Each is an argument of the operation that reads it (\<open>newID\<close>, \<open>now\<close>,
  \<open>hashed\<close>), after the arguments of the Go method.  An operation takes the engine
  last and returns its result with the engine after the call.  A field that a struct
  literal of the source leaves out has Go's zero value: 0, \<open>false\<close>, the empty string.
\<close>

definition RegisterAccount ::
  "string \<Rightarrow> string \<Rightarrow> string + string \<Rightarrow> string \<Rightarrow> time \<Rightarrow> RedditEngine
     \<Rightarrow> (error + User) \<times> RedditEngine" where
  "RegisterAccount username password hashed newID now e =
     (let exists = list_ex (\<lambda>user. User_Username user = username) (RangeValues (users e))
      in if exists then (Inl UsernameAlreadyExists, e)
         else case hashed of
                Inl msg \<Rightarrow> (Inl (BcryptError msg), e)
              | Inr hashedPassword \<Rightarrow>
                  (let user = \<lparr>User_ID = newID, User_Username = username,
                                User_Password = hashedPassword, User_Karma = 0,
                                User_IsOnline = False, User_CreatedAt = now\<rparr>
                   in (Inr user, e\<lparr>users := Store (User_ID user) user (users e)\<rparr>)))"

text \<open>
  \<open>AuthenticateUser\<close> takes the first user of the scan with the username;
  \<open>compare\<close> is \<open>bcrypt.CompareHashAndPassword\<close> (true when it returns no error).
\<close>

definition AuthenticateUser ::
  "string \<Rightarrow> string \<Rightarrow> (string \<Rightarrow> string \<Rightarrow> bool) \<Rightarrow> RedditEngine \<Rightarrow> error + string" where
  "AuthenticateUser username password compare e =
     (case find (\<lambda>u. User_Username u = username) (RangeValues (users e)) of
        None \<Rightarrow> Inl UserNotFound
      | Some user \<Rightarrow>
          if \<not> compare (User_Password user) password then Inl InvalidPassword
          else Inr (User_ID user))"

definition CreateSubReddit ::
  "string \<Rightarrow> string \<Rightarrow> string \<Rightarrow> string \<Rightarrow> time \<Rightarrow> RedditEngine
     \<Rightarrow> (error + SubReddit) \<times> RedditEngine" where
  "CreateSubReddit name description creatorID newID now e =
     (case Load (users e) creatorID of
        None \<Rightarrow> (Inl CreatorNotFound, e)
      | Some _ \<Rightarrow>
          (let subreddit = \<lparr>SubReddit_ID = newID, SubReddit_Name = name,
                            SubReddit_Description = description,
                            SubReddit_CreatorID = creatorID, SubReddit_MemberCount = 0,
                            SubReddit_PostCount = 0, SubReddit_CreatedAt = now,
                            SubReddit_Members = []\<rparr>;
               subreddit = subreddit\<lparr>SubReddit_Members :=
                              Store creatorID True (SubReddit_Members subreddit)\<rparr>
           in (Inr subreddit,
               e\<lparr>subreddits := Store (SubReddit_ID subreddit) subreddit (subreddits e)\<rparr>)))"

definition GetSubReddit :: "string \<Rightarrow> RedditEngine \<Rightarrow> error + SubReddit" where
  "GetSubReddit subredditID e =
     (case Load (subreddits e) subredditID of
        None \<Rightarrow> Inl SubredditNotFound
      | Some sub \<Rightarrow> Inr sub)"

definition ListSubreddits :: "RedditEngine \<Rightarrow> error + SubReddit list" where
  "ListSubreddits e = Inr (RangeValues (subreddits e))"

text \<open>
  The stores hold pointers, and \<open>JoinSubReddit\<close>, \<open>LeaveSubReddit\<close> and \<open>Vote\<close>
  write through the pointer they loaded.  No pointer is stored twice, so the write is
  a \<open>Store\<close> of the changed entity under the key it was loaded from.
\<close>

definition JoinSubReddit ::
  "string \<Rightarrow> string \<Rightarrow> RedditEngine \<Rightarrow> error option \<times> RedditEngine" where
  "JoinSubReddit userID subredditID e =
     (case Load (subreddits e) subredditID of
        None \<Rightarrow> (Some SubredditNotFound, e)
      | Some subreddit \<Rightarrow>
          (case Load (users e) userID of
             None \<Rightarrow> (Some UserNotFound, e)
           | Some _ \<Rightarrow>
               (None,
                e\<lparr>subreddits :=
                    Store subredditID
                      (subreddit\<lparr>SubReddit_Members :=
                          Store userID True (SubReddit_Members subreddit)\<rparr>)
                      (subreddits e)\<rparr>)))"

definition LeaveSubReddit ::
  "string \<Rightarrow> string \<Rightarrow> RedditEngine \<Rightarrow> error option \<times> RedditEngine" where
  "LeaveSubReddit userID subredditID e =
     (case Load (subreddits e) subredditID of
        None \<Rightarrow> (Some SubredditNotFound, e)
      | Some subreddit \<Rightarrow>
          (None,
           e\<lparr>subreddits :=
               Store subredditID
                 (subreddit\<lparr>SubReddit_Members :=
                     Delete userID (SubReddit_Members subreddit)\<rparr>)
                 (subreddits e)\<rparr>))"

definition CreatePost ::
  "string \<Rightarrow> string \<Rightarrow> string \<Rightarrow> string \<Rightarrow> string \<Rightarrow> time \<Rightarrow> RedditEngine
     \<Rightarrow> (error + Post) \<times> RedditEngine" where
  "CreatePost title content authorID subredditID newID now e =
     (let author = Load (users e) authorID;
          subredditI = Load (subreddits e) subredditID
      in if author = None then (Inl AuthorNotFound, e)
         else case subredditI of
                None \<Rightarrow> (Inl SubredditNotFound, e)
              | Some subreddit \<Rightarrow>
                  if Load (SubReddit_Members subreddit) authorID = None
                  then (Inl NotAMember, e)
                  else
                    (let post = \<lparr>Post_ID = newID, Post_Title = title,
                                  Post_Content = content, Post_AuthorID = authorID,
                                  Post_SubRedditID = subredditID, Post_IsRepost = False,
                                  Post_OriginalID = [], Post_Upvotes = 0,
                                  Post_Downvotes = 0, Post_CommentCount = 0,
                                  Post_CreatedAt = now\<rparr>
                     in (Inr post, e\<lparr>posts := Store (Post_ID post) post (posts e)\<rparr>)))"

definition GetPost :: "string \<Rightarrow> RedditEngine \<Rightarrow> error + Post" where
  "GetPost postID e =
     (case Load (posts e) postID of
        None \<Rightarrow> Inl PostNotFound
      | Some post \<Rightarrow> Inr post)"

definition ListPosts :: "string \<Rightarrow> RedditEngine \<Rightarrow> error + Post list" where
  "ListPosts subredditID e =
     Inr (filter (\<lambda>post. Post_SubRedditID post = subredditID) (RangeValues (posts e)))"

definition CreateComment ::
  "string \<Rightarrow> string \<Rightarrow> string \<Rightarrow> string option \<Rightarrow> string \<Rightarrow> time \<Rightarrow> RedditEngine
     \<Rightarrow> (error + Comment) \<times> RedditEngine" where
  "CreateComment content authorID postID parentCommentID newID now e =
     (if Load (users e) authorID = None then (Inl AuthorNotFound, e)
      else if Load (posts e) postID = None then (Inl PostNotFound, e)
      else if (case parentCommentID of
                 None \<Rightarrow> False
               | Some parent \<Rightarrow> Load (comments e) parent = None)
      then (Inl ParentCommentNotFound, e)
      else
        (let comment = \<lparr>Comment_ID = newID, Comment_Content = content,
                         Comment_AuthorID = authorID, Comment_PostID = postID,
                         Comment_ParentID = parentCommentID, Comment_Depth = 0,
                         Comment_Upvotes = 0, Comment_Downvotes = 0,
                         Comment_CreatedAt = now\<rparr>
         in (Inr comment,
             e\<lparr>comments := Store (Comment_ID comment) comment (comments e)\<rparr>)))"

definition GetComments :: "string \<Rightarrow> RedditEngine \<Rightarrow> error + Comment list" where
  "GetComments postID e =
     Inr (filter (\<lambda>comment. Comment_PostID comment = postID) (RangeValues (comments e)))"

text \<open>
  \<open>Vote\<close> resolves the target against the posts first and the comments second, and
  keeps one ledger entry under the key \<open>userID + ":" + targetID\<close>.
\<close>

definition Vote ::
  "string \<Rightarrow> string \<Rightarrow> bool \<Rightarrow> time \<Rightarrow> RedditEngine \<Rightarrow> error option \<times> RedditEngine" where
  "Vote userID targetID isUpvote now e =
     (let postI = Load (posts e) targetID;
          commentI = Load (comments e) targetID
      in if postI = None \<and> commentI = None then (Some TargetNotFound, e)
         else
           (let voteID = userID @ '':'' @ targetID
            in case Load (votes e) voteID of
                 Some existingVote \<Rightarrow>
                   if Vote_IsUpvote existingVote \<noteq> isUpvote
                   then
                     (let e =
                        (case postI of
                           Some post \<Rightarrow>
                             e\<lparr>posts := Store targetID
                                 (if isUpvote
                                  then post\<lparr>Post_Upvotes := Post_Upvotes post + 1,
                                            Post_Downvotes := Post_Downvotes post - 1\<rparr>
                                  else post\<lparr>Post_Downvotes := Post_Downvotes post + 1,
                                            Post_Upvotes := Post_Upvotes post - 1\<rparr>)
                                 (posts e)\<rparr>
                         | None \<Rightarrow>
                             (case commentI of
                                Some comment \<Rightarrow>
                                  e\<lparr>comments := Store targetID
                                      (if isUpvote
                                       then comment\<lparr>Comment_Upvotes := Comment_Upvotes comment + 1,
                                                    Comment_Downvotes := Comment_Downvotes comment - 1\<rparr>
                                       else comment\<lparr>Comment_Downvotes := Comment_Downvotes comment + 1,
                                                    Comment_Upvotes := Comment_Upvotes comment - 1\<rparr>)
                                      (comments e)\<rparr>
                              | None \<Rightarrow> e))
                      in (None,
                          e\<lparr>votes := Store voteID (existingVote\<lparr>Vote_IsUpvote := isUpvote\<rparr>)
                                        (votes e)\<rparr>))
                   else (None, e)
               | None \<Rightarrow>
                   (let vote = \<lparr>Vote_ID = [], Vote_UserID = userID, Vote_TargetID = targetID,
                                Vote_IsUpvote = isUpvote, Vote_CreatedAt = now\<rparr>;
                        e =
                          (case postI of
                             Some post \<Rightarrow>
                               e\<lparr>posts := Store targetID
                                   (if isUpvote
                                    then post\<lparr>Post_Upvotes := Post_Upvotes post + 1\<rparr>
                                    else post\<lparr>Post_Downvotes := Post_Downvotes post + 1\<rparr>)
                                   (posts e)\<rparr>
                           | None \<Rightarrow>
                               (case commentI of
                                  Some comment \<Rightarrow>
                                    e\<lparr>comments := Store targetID
                                        (if isUpvote
                                         then comment\<lparr>Comment_Upvotes := Comment_Upvotes comment + 1\<rparr>
                                         else comment\<lparr>Comment_Downvotes := Comment_Downvotes comment + 1\<rparr>)
                                        (comments e)\<rparr>
                                | None \<Rightarrow> e))
                    in (None, e\<lparr>votes := Store voteID vote (votes e)\<rparr>))))"

text \<open>
  \<open>GetFeed\<close> collects the identifiers of the subreddits that have the user as a
  member into the Go map \<open>userSubscriptions\<close>, whose lookup of a missing key is
  \<open>false\<close>, and keeps the posts whose subreddit is in it.
\<close>

definition userSubscriptions :: "string \<Rightarrow> RedditEngine \<Rightarrow> string \<Rightarrow> bool" where
  "userSubscriptions userID e =
     fold (\<lambda>subreddit subs.
             if Load (SubReddit_Members subreddit) userID \<noteq> None
             then subs(SubReddit_ID subreddit := True) else subs)
          (RangeValues (subreddits e)) (\<lambda>_. False)"

definition GetFeed :: "string \<Rightarrow> RedditEngine \<Rightarrow> error + Post list" where
  "GetFeed userID e =
     Inr (filter (\<lambda>post. userSubscriptions userID e (Post_SubRedditID post))
            (RangeValues (posts e)))"

definition SendDirectMessage ::
  "string \<Rightarrow> string \<Rightarrow> string \<Rightarrow> string \<Rightarrow> time \<Rightarrow> RedditEngine
     \<Rightarrow> (error + DirectMessage) \<times> RedditEngine" where
  "SendDirectMessage fromID toID content newID now e =
     (if Load (users e) fromID = None then (Inl SenderNotFound, e)
      else if Load (users e) toID = None then (Inl RecipientNotFound, e)
      else
        (let message = \<lparr>DirectMessage_ID = newID, DirectMessage_FromID = fromID,
                         DirectMessage_ToID = toID, DirectMessage_Content = content,
                         DirectMessage_IsRead = False, DirectMessage_CreatedAt = now\<rparr>
         in (Inr message,
             e\<lparr>messages := Store (DirectMessage_ID message) message (messages e)\<rparr>)))"

definition GetMessage :: "string \<Rightarrow> string \<Rightarrow> RedditEngine \<Rightarrow> error + DirectMessage" where
  "GetMessage userID messageID e =
     (case Load (messages e) messageID of
        None \<Rightarrow> Inl MessageNotFound
      | Some msg \<Rightarrow>
          if DirectMessage_FromID msg \<noteq> userID \<and> DirectMessage_ToID msg \<noteq> userID
          then Inl UnauthorizedAccess
          else Inr msg)"

definition GetUserPublicKey :: "string \<Rightarrow> RedditEngine \<Rightarrow> error + string" where
  "GetUserPublicKey userID e =
     (case Load (users e) userID of
        None \<Rightarrow> Inl UserNotFound
      | Some _ \<Rightarrow> Inr ''dummy-public-key'')"

definition GetUserMessages :: "string \<Rightarrow> RedditEngine \<Rightarrow> error + DirectMessage list" where
  "GetUserMessages userID e =
     Inr (filter (\<lambda>msg. DirectMessage_ToID msg = userID \<or> DirectMessage_FromID msg = userID)
            (RangeValues (messages e)))"

section \<open>Calls and reachable states\<close>

text \<open>
  A \<open>call\<close> is one invocation of a method of the engine with its arguments and with
  what it reads from outside.  \<open>exec\<close> runs it and returns the error, if any, with the
  engine after the call; the methods that only read leave the engine as it is.
  \<open>run\<close> runs a sequence of calls one after another, whatever each returns: each
  call ends before the next one starts.  This is the engine under calls that do not
  overlap.  The servers also call the engine from several goroutines at once, and the
  engine takes no lock; what overlapping registrations do is modelled below.
\<close>

datatype call =
    CallRegisterAccount string string "string + string" string time
  | CallAuthenticateUser string string "string \<Rightarrow> string \<Rightarrow> bool"
  | CallCreateSubReddit string string string string time
  | CallGetSubReddit string
  | CallListSubreddits
  | CallJoinSubReddit string string
  | CallLeaveSubReddit string string
  | CallCreatePost string string string string string time
  | CallGetPost string
  | CallListPosts string
  | CallCreateComment string string string "string option" string time
  | CallGetComments string
  | CallVote string string bool time
  | CallGetFeed string
  | CallSendDirectMessage string string string string time
  | CallGetMessage string string
  | CallGetUserPublicKey string
  | CallGetUserMessages string

definition errorOf :: "error + 'a \<Rightarrow> error option" where
  "errorOf r = (case r of Inl e \<Rightarrow> Some e | Inr _ \<Rightarrow> None)"

fun exec :: "call \<Rightarrow> RedditEngine \<Rightarrow> error option \<times> RedditEngine" where
  "exec (CallRegisterAccount username password hashed newID now) e =
     apfst errorOf (RegisterAccount username password hashed newID now e)"
| "exec (CallAuthenticateUser username password compare) e =
     (errorOf (AuthenticateUser username password compare e), e)"
| "exec (CallCreateSubReddit name description creatorID newID now) e =
     apfst errorOf (CreateSubReddit name description creatorID newID now e)"
| "exec (CallGetSubReddit subredditID) e = (errorOf (GetSubReddit subredditID e), e)"
| "exec CallListSubreddits e = (errorOf (ListSubreddits e), e)"
| "exec (CallJoinSubReddit userID subredditID) e = JoinSubReddit userID subredditID e"
| "exec (CallLeaveSubReddit userID subredditID) e = LeaveSubReddit userID subredditID e"
| "exec (CallCreatePost title content authorID subredditID newID now) e =
     apfst errorOf (CreatePost title content authorID subredditID newID now e)"
| "exec (CallGetPost postID) e = (errorOf (GetPost postID e), e)"
| "exec (CallListPosts subredditID) e = (errorOf (ListPosts subredditID e), e)"
| "exec (CallCreateComment content authorID postID parentCommentID newID now) e =
     apfst errorOf (CreateComment content authorID postID parentCommentID newID now e)"
| "exec (CallGetComments postID) e = (errorOf (GetComments postID e), e)"
| "exec (CallVote userID targetID isUpvote now) e = Vote userID targetID isUpvote now e"
| "exec (CallGetFeed userID) e = (errorOf (GetFeed userID e), e)"
| "exec (CallSendDirectMessage fromID toID content newID now) e =
     apfst errorOf (SendDirectMessage fromID toID content newID now e)"
| "exec (CallGetMessage userID messageID) e = (errorOf (GetMessage userID messageID e), e)"
| "exec (CallGetUserPublicKey userID) e = (errorOf (GetUserPublicKey userID e), e)"
| "exec (CallGetUserMessages userID) e = (errorOf (GetUserMessages userID e), e)"

fun run :: "call list \<Rightarrow> RedditEngine \<Rightarrow> RedditEngine" where
  "run [] e = e"
| "run (c # cs) e = run cs (snd (exec c e))"

section \<open>Overlapping registrations\<close>

text \<open>
  \<open>RegisterAccount\<close> touches the user store twice, with no lock around the two: the
  \<open>Range\<close> that looks for the username (lines 43 to 50) and the \<open>Store\<close> of the new
  user (line 70); the hashing lies between them.  A \<open>registration\<close> is a call of
  \<open>RegisterAccount\<close> in flight: about to scan, about to hash, about to store, or
  returned.  \<open>regStep\<close> does the next of its steps on the engine as it is at that
  moment.  \<open>interleave\<close> runs several registrations under a schedule, the list of the
  indices of the registrations that step, in order.  The scan is taken as one step; a
  scan that other stores interrupt only adds behaviours.
\<close>

datatype registration =
    Scan string string "string + string" string time
  | Hash string string "string + string" string time
  | StoreUser User
  | Returned "error + User"

fun regStep :: "registration \<Rightarrow> RedditEngine \<Rightarrow> registration \<times> RedditEngine" where
  "regStep (Scan username password hashed newID now) e =
     (let exists = list_ex (\<lambda>user. User_Username user = username) (RangeValues (users e))
      in if exists then (Returned (Inl UsernameAlreadyExists), e)
         else (Hash username password hashed newID now, e))"
| "regStep (Hash username password hashed newID now) e =
     (case hashed of
        Inl msg \<Rightarrow> (Returned (Inl (BcryptError msg)), e)
      | Inr hashedPassword \<Rightarrow>
          (StoreUser \<lparr>User_ID = newID, User_Username = username,
                       User_Password = hashedPassword, User_Karma = 0,
                       User_IsOnline = False, User_CreatedAt = now\<rparr>, e))"
| "regStep (StoreUser user) e =
     (Returned (Inr user), e\<lparr>users := Store (User_ID user) user (users e)\<rparr>)"
| "regStep (Returned r) e = (Returned r, e)"

fun interleave ::
  "nat list \<Rightarrow> registration list \<Rightarrow> RedditEngine \<Rightarrow> registration list \<times> RedditEngine" where
  "interleave [] rs e = (rs, e)"
| "interleave (i # schedule) rs e =
     (if i < length rs
      then interleave schedule (rs[i := fst (regStep (rs ! i) e)]) (snd (regStep (rs ! i) e))
      else interleave schedule rs e)"

section \<open>Observations and an example engine\<close>

text \<open>
  \<open>targetCounters\<close> reads the counter pair of a vote target the way \<open>Vote\<close>
  resolves it (post first, comment second); \<open>memberOf\<close> lists the subreddits that
  have the user in \<open>Members\<close>, the test \<open>CreatePost\<close> and \<open>GetFeed\<close> make;
  \<open>usersOK\<close> says that the stored users have pairwise different usernames and karma 0.
  \<open>demo\<close> is the engine after the calls \<open>demoCalls\<close>: two users, three subreddits,
  a post in each, one comment and one message.
\<close>

definition targetCounters :: "string \<Rightarrow> RedditEngine \<Rightarrow> (int64 \<times> int64) option" where
  "targetCounters targetID e =
     (case Load (posts e) targetID of
        Some post \<Rightarrow> Some (Post_Upvotes post, Post_Downvotes post)
      | None \<Rightarrow>
          (case Load (comments e) targetID of
             Some comment \<Rightarrow> Some (Comment_Upvotes comment, Comment_Downvotes comment)
           | None \<Rightarrow> None))"

definition memberOf :: "string \<Rightarrow> RedditEngine \<Rightarrow> string list" where
  "memberOf userID e =
     map SubReddit_ID
       (filter (\<lambda>sr. Load (SubReddit_Members sr) userID \<noteq> None) (RangeValues (subreddits e)))"

definition demoCalls :: "call list" where
  "demoCalls =
     [CallRegisterAccount ''alice'' ''pw1'' (Inr ''h1'') ''u1'' 1,
      CallRegisterAccount ''bob'' ''pw2'' (Inr ''h2'') ''u2'' 2,
      CallCreateSubReddit ''golang'' ''Go'' ''u1'' ''s1'' 3,
      CallCreateSubReddit ''isabelle'' ''HOL'' ''u1'' ''s2'' 4,
      CallCreateSubReddit ''cats'' ''Cats'' ''u2'' ''s3'' 5,
      CallCreatePost ''t1'' ''b1'' ''u1'' ''s1'' ''p1'' 6,
      CallCreatePost ''t2'' ''b2'' ''u1'' ''s2'' ''p2'' 7,
      CallCreatePost ''t3'' ''b3'' ''u2'' ''s3'' ''p3'' 8,
      CallCreateComment ''hi'' ''u2'' ''p1'' None ''c1'' 9,
      CallSendDirectMessage ''u1'' ''u2'' ''hello'' ''m1'' 10]"

definition demo :: RedditEngine where
  "demo =
     \<lparr>users =
        [(''u1'', \<lparr>User_ID = ''u1'', User_Username = ''alice'', User_Password = ''h1'',
                   User_Karma = 0, User_IsOnline = False, User_CreatedAt = 1\<rparr>),
         (''u2'', \<lparr>User_ID = ''u2'', User_Username = ''bob'', User_Password = ''h2'',
                   User_Karma = 0, User_IsOnline = False, User_CreatedAt = 2\<rparr>)],
      subreddits =
        [(''s1'', \<lparr>SubReddit_ID = ''s1'', SubReddit_Name = ''golang'',
                   SubReddit_Description = ''Go'', SubReddit_CreatorID = ''u1'',
                   SubReddit_MemberCount = 0, SubReddit_PostCount = 0,
                   SubReddit_CreatedAt = 3, SubReddit_Members = [(''u1'', True)]\<rparr>),
         (''s2'', \<lparr>SubReddit_ID = ''s2'', SubReddit_Name = ''isabelle'',
                   SubReddit_Description = ''HOL'', SubReddit_CreatorID = ''u1'',
                   SubReddit_MemberCount = 0, SubReddit_PostCount = 0,
                   SubReddit_CreatedAt = 4, SubReddit_Members = [(''u1'', True)]\<rparr>),
         (''s3'', \<lparr>SubReddit_ID = ''s3'', SubReddit_Name = ''cats'',
                   SubReddit_Description = ''Cats'', SubReddit_CreatorID = ''u2'',
                   SubReddit_MemberCount = 0, SubReddit_PostCount = 0,
                   SubReddit_CreatedAt = 5, SubReddit_Members = [(''u2'', True)]\<rparr>)],
      posts =
        [(''p1'', \<lparr>Post_ID = ''p1'', Post_Title = ''t1'', Post_Content = ''b1'',
                   Post_AuthorID = ''u1'', Post_SubRedditID = ''s1'',
                   Post_IsRepost = False, Post_OriginalID = [], Post_Upvotes = 0,
                   Post_Downvotes = 0, Post_CommentCount = 0, Post_CreatedAt = 6\<rparr>),
         (''p2'', \<lparr>Post_ID = ''p2'', Post_Title = ''t2'', Post_Content = ''b2'',
                   Post_AuthorID = ''u1'', Post_SubRedditID = ''s2'',
                   Post_IsRepost = False, Post_OriginalID = [], Post_Upvotes = 0,
                   Post_Downvotes = 0, Post_CommentCount = 0, Post_CreatedAt = 7\<rparr>),
         (''p3'', \<lparr>Post_ID = ''p3'', Post_Title = ''t3'', Post_Content = ''b3'',
                   Post_AuthorID = ''u2'', Post_SubRedditID = ''s3'',
                   Post_IsRepost = False, Post_OriginalID = [], Post_Upvotes = 0,
                   Post_Downvotes = 0, Post_CommentCount = 0, Post_CreatedAt = 8\<rparr>)],
      comments =
        [(''c1'', \<lparr>Comment_ID = ''c1'', Comment_Content = ''hi'',
                   Comment_AuthorID = ''u2'', Comment_PostID = ''p1'',
                   Comment_ParentID = None, Comment_Depth = 0, Comment_Upvotes = 0,
                   Comment_Downvotes = 0, Comment_CreatedAt = 9\<rparr>)],
      messages =
        [(''m1'', \<lparr>DirectMessage_ID = ''m1'', DirectMessage_FromID = ''u1'',
                   DirectMessage_ToID = ''u2'', DirectMessage_Content = ''hello'',
                   DirectMessage_IsRead = False, DirectMessage_CreatedAt = 10\<rparr>)],
      votes = []\<rparr>"

definition usersOK :: "RedditEngine \<Rightarrow> bool" where
  "usersOK e \<longleftrightarrow> distinct (map User_Username (RangeValues (users e))) \<and>
                list_all (\<lambda>u. User_Karma u = 0) (RangeValues (users e))"

section \<open>Lemmas on the stores\<close>

lemma Load_Store: "Load (Store k v m) k' = (if k' = k then Some v else Load m k')"
  by (simp add: Load_def Store_def update_conv')

lemma Store_Store: "Store k v (Store k v' m) = Store k v m"
  by (simp add: Store_def)

lemma Load_Delete: "Load (Delete k m) k' = (if k' = k then None else Load m k')"
  by (simp add: Load_def Delete_def delete_conv')

lemmas op_defs = RegisterAccount_def CreateSubReddit_def JoinSubReddit_def LeaveSubReddit_def
  CreatePost_def CreateComment_def Vote_def SendDirectMessage_def

lemma demo_reachable: "run demoCalls NewRedditEngine = demo"
  by code_simp

lemma values_Store: "set (RangeValues (Store k v m)) \<subseteq> insert v (set (RangeValues m))"
  unfolding RangeValues_def Store_def by (induction m) auto


lemma distinct_Store:
  "distinct (map f (RangeValues m)) \<Longrightarrow> f v \<notin> f ` set (RangeValues m)
     \<Longrightarrow> distinct (map f (RangeValues (Store k v m)))"
proof (induction m)
  case Nil
  then show ?case by (simp add: RangeValues_def Store_def)
next
  case (Cons p m)
  obtain k' v' where p: "p = (k', v')" by (cases p)
  show ?case
  proof (cases "k' = k")
    case True
    with Cons.prems p show ?thesis
      by (auto simp: RangeValues_def Store_def image_iff)
  next
    case False
    have sub: "set (RangeValues (Store k v m)) \<subseteq> insert v (set (RangeValues m))"
      by (rule values_Store)
    have "f v' \<notin> f ` set (RangeValues m)" and "f v' \<noteq> f v"
      using Cons.prems p by (auto simp: RangeValues_def)
    with sub have "f v' \<notin> f ` set (RangeValues (Store k v m))"
      by blast
    with False Cons p show ?thesis
      by (auto simp: RangeValues_def Store_def)
  qed
qed

lemma Vote_users: "users (snd (Vote userID targetID isUpvote now e)) = users e"
  by (simp add: Vote_def Let_def split: option.splits)

lemma RegisterAccount_users:
  "users (snd (RegisterAccount username password hashed newID now e)) = users e \<or>
   (\<exists>u. User_Karma u = 0 \<and> User_Username u \<notin> User_Username ` set (RangeValues (users e)) \<and>
        users (snd (RegisterAccount username password hashed newID now e)) =
          Store (User_ID u) u (users e))"
proof (cases "list_ex (\<lambda>user. User_Username user = username) (RangeValues (users e))")
  case True
  then show ?thesis by (simp add: RegisterAccount_def)
next
  case False
  show ?thesis
  proof (cases hashed)
    case (Inl msg)
    with False show ?thesis by (simp add: RegisterAccount_def)
  next
    case (Inr hashedPassword)
    let ?u = "\<lparr>User_ID = newID, User_Username = username, User_Password = hashedPassword,
               User_Karma = 0, User_IsOnline = False, User_CreatedAt = now\<rparr>"
    have "User_Karma ?u = 0" by simp
    moreover have "User_Username ?u \<notin> User_Username ` set (RangeValues (users e))"
      using False by (auto simp: list_ex_iff)
    moreover have "users (snd (RegisterAccount username password hashed newID now e)) =
                     Store (User_ID ?u) ?u (users e)"
      using False Inr by (simp add: RegisterAccount_def Let_def)
    ultimately show ?thesis by blast
  qed
qed

lemma users_exec:
  "users (snd (exec c e)) = users e \<or>
   (\<exists>u. User_Karma u = 0 \<and> User_Username u \<notin> User_Username ` set (RangeValues (users e)) \<and>
        users (snd (exec c e)) = Store (User_ID u) u (users e))"
proof (cases c)
  case (CallRegisterAccount username password hashed newID now)
  then show ?thesis
    using RegisterAccount_users [of username password hashed newID now e]
    by simp
next
  case (CallVote userID targetID isUpvote now)
  then show ?thesis by (simp add: Vote_users)
qed (auto simp: op_defs Let_def split: option.splits if_splits)

lemma usersOK_exec:
  assumes "usersOK e"
  shows "usersOK (snd (exec c e))"
proof -
  from users_exec [of c e] show ?thesis
  proof
    assume "users (snd (exec c e)) = users e"
    with assms show ?thesis by (simp add: usersOK_def)
  next
    assume "\<exists>u. User_Karma u = 0 \<and>
              User_Username u \<notin> User_Username ` set (RangeValues (users e)) \<and>
              users (snd (exec c e)) = Store (User_ID u) u (users e)"
    then obtain u where u: "User_Karma u = 0"
        "User_Username u \<notin> User_Username ` set (RangeValues (users e))"
        "users (snd (exec c e)) = Store (User_ID u) u (users e)"
      by blast
    have "distinct (map User_Username (RangeValues (Store (User_ID u) u (users e))))"
      using assms u(2) by (simp add: usersOK_def distinct_Store)
    moreover have "list_all (\<lambda>u. User_Karma u = 0) (RangeValues (Store (User_ID u) u (users e)))"
      using assms u(1) values_Store [of "User_ID u" u "users e"]
      by (auto simp: usersOK_def list_all_iff)
    ultimately show ?thesis by (simp add: usersOK_def u(3))
  qed
qed

lemma usersOK_run: "usersOK e \<Longrightarrow> usersOK (run cs e)"
  by (induction cs arbitrary: e) (simp_all add: usersOK_exec)

lemma usersOK_new: "usersOK NewRedditEngine"
  by (simp add: usersOK_def NewRedditEngine_def RangeValues_def)

section \<open>The vote ledger\<close>

text \<open>
  C1.  Let the target \<open>T\<close> exist, with counters \<open>(u0, d0)\<close>, and let the ledger hold
  no vote under the key of user \<open>U\<close> and \<open>T\<close>.  Then a vote of \<open>U\<close> on \<open>T\<close> followed by
  a second vote of \<open>U\<close> on \<open>T\<close> both succeed, and afterwards the counters count the
  second vote alone: \<open>(u0 + 1, d0)\<close> after up then up and after down then up,
  \<open>(u0, d0 + 1)\<close> after up then down and after down then down; the recorded polarity
  is that of the second vote; and a second vote of the polarity of the first leaves the
  engine as the first vote left it.  On a target that starts at 0 and 0 this is 1 and
  0 after up, up, and 0 and 1 after up, down.
\<close>

theorem Vote_state_machine:
  assumes "targetCounters T e = Some (u0, d0)"
    and "Load (votes e) (U @ '':'' @ T) = None"
  shows "let e1 = snd (Vote U T first now1 e);
             e2 = snd (Vote U T second now2 e1)
         in fst (Vote U T first now1 e) = None \<and>
            fst (Vote U T second now2 e1) = None \<and>
            targetCounters T e2 = Some (if second then (u0 + 1, d0) else (u0, d0 + 1)) \<and>
            map_option Vote_IsUpvote (Load (votes e2) (U @ '':'' @ T)) = Some second \<and>
            (first = second \<longrightarrow> e2 = e1)"
  using assms
  by (cases "Load (posts e) T"; cases "Load (comments e) T"; cases first; cases second)
     (simp_all add: Vote_def targetCounters_def Load_Store Store_Store Let_def)

theorem Vote_state_machine_witness:
  "targetCounters ''p1'' demo = Some (0, 0) \<and>
   Load (votes demo) (''u2'' @ '':'' @ ''p1'') = None \<and>
   targetCounters ''p1'' (snd (Vote ''u2'' ''p1'' True 12 (snd (Vote ''u2'' ''p1'' True 11 demo))))
     = Some (1, 0) \<and>
   targetCounters ''p1'' (snd (Vote ''u2'' ''p1'' False 12 (snd (Vote ''u2'' ''p1'' True 11 demo))))
     = Some (0, 1) \<and>
   map_option Vote_IsUpvote
     (Load (votes (snd (Vote ''u2'' ''p1'' False 12 (snd (Vote ''u2'' ''p1'' True 11 demo)))))
        (''u2'' @ '':'' @ ''p1'')) = Some False"
proof -
  have c: "targetCounters ''p1'' demo = Some (0, 0)"
    by code_simp
  have v: "Load (votes demo) (''u2'' @ '':'' @ ''p1'') = None"
    by code_simp
  have a: "targetCounters ''p1''
             (snd (Vote ''u2'' ''p1'' True 12 (snd (Vote ''u2'' ''p1'' True 11 demo)))) = Some (1, 0)"
    using Vote_state_machine [OF c v, of True 11 True 12] by (auto simp: Let_def)
  have b: "targetCounters ''p1''
             (snd (Vote ''u2'' ''p1'' False 12 (snd (Vote ''u2'' ''p1'' True 11 demo)))) = Some (0, 1) \<and>
           map_option Vote_IsUpvote
             (Load (votes (snd (Vote ''u2'' ''p1'' False 12 (snd (Vote ''u2'' ''p1'' True 11 demo)))))
               (''u2'' @ '':'' @ ''p1'')) = Some False"
    using Vote_state_machine [OF c v, of True 11 False 12] by (simp add: Let_def)
  from c v a b show ?thesis by blast
qed

section \<open>Comments\<close>

text \<open>
  C2.  \<open>CreateComment\<close> checks that the parent exists and never reads its depth: the
  comment literal leaves \<open>Depth\<close> at Go's zero value.  In the example engine the reply
  \<open>c2\<close> to the top-level comment \<open>c1\<close> is stored with parent \<open>c1\<close> and depth 0, where
  the depth of the parent plus 1 is 1.
\<close>

theorem CreateComment_reply_depth:
  "map_option Comment_Depth (Load (comments demo) ''c1'') = Some 0 \<and>
   map_option Comment_ParentID
     (Load (comments (snd (CreateComment ''re'' ''u1'' ''p1'' (Some ''c1'') ''c2'' 11 demo))) ''c2'')
     = Some (Some ''c1'') \<and>
   map_option Comment_Depth
     (Load (comments (snd (CreateComment ''re'' ''u1'' ''p1'' (Some ''c1'') ''c2'' 11 demo))) ''c2'')
     = Some 0"
  by code_simp

text \<open>Every comment that \<open>CreateComment\<close> returns has depth 0.\<close>

lemma CreateComment_depth_zero:
  "fst (CreateComment content authorID postID parentCommentID newID now e) = Inr comment
     \<Longrightarrow> Comment_Depth comment = 0"
  by (auto simp: CreateComment_def Let_def split: if_splits)

section \<open>The membership gate\<close>

text \<open>
  C4.  When the author and the subreddit exist, \<open>CreatePost\<close> fails if and only if the
  author is not in the subreddit's \<open>Members\<close>, and the error is then the one of the
  membership check.  For such an author \<open>JoinSubReddit\<close> succeeds, and the same
  \<open>CreatePost\<close> call on the engine after the join returns a post with the given
  title, content, author and subreddit, which the post store holds under its
  identifier.
\<close>

theorem CreatePost_membership_gate:
  assumes "Load (users e) authorID = Some author"
    and "Load (subreddits e) subredditID = Some subreddit"
  shows "((\<exists>er. fst (CreatePost title content authorID subredditID newID now e) = Inl er) \<longleftrightarrow>
            Load (SubReddit_Members subreddit) authorID = None) \<and>
         (fst (CreatePost title content authorID subredditID newID now e) = Inl NotAMember \<longleftrightarrow>
            Load (SubReddit_Members subreddit) authorID = None) \<and>
         (Load (SubReddit_Members subreddit) authorID = None \<longrightarrow>
            fst (JoinSubReddit authorID subredditID e) = None \<and>
            (let e1 = snd (JoinSubReddit authorID subredditID e);
                 r = CreatePost title content authorID subredditID newID now e1
             in case fst r of
                  Inl er \<Rightarrow> False
                | Inr post \<Rightarrow>
                    Load (posts (snd r)) (Post_ID post) = Some post \<and>
                    Post_Title post = title \<and> Post_Content post = content \<and>
                    Post_AuthorID post = authorID \<and> Post_SubRedditID post = subredditID))"
  using assms
  by (auto simp: CreatePost_def JoinSubReddit_def Load_Store Let_def)

theorem CreatePost_membership_gate_witness:
  "Load (users demo) ''u2'' \<noteq> None \<and> Load (subreddits demo) ''s1'' \<noteq> None \<and>
   fst (CreatePost ''t'' ''b'' ''u2'' ''s1'' ''p4'' 11 demo) = Inl NotAMember \<and>
   fst (JoinSubReddit ''u2'' ''s1'' demo) = None \<and>
   map_option Post_AuthorID
     (Load (posts (snd (CreatePost ''t'' ''b'' ''u2'' ''s1'' ''p4'' 11
                          (snd (JoinSubReddit ''u2'' ''s1'' demo))))) ''p4'') = Some ''u2''"
proof -
  have u: "Load (users demo) ''u2'' =
             Some \<lparr>User_ID = ''u2'', User_Username = ''bob'', User_Password = ''h2'',
                    User_Karma = 0, User_IsOnline = False, User_CreatedAt = 2\<rparr>"
    by code_simp
  have s: "Load (subreddits demo) ''s1'' =
             Some \<lparr>SubReddit_ID = ''s1'', SubReddit_Name = ''golang'',
                    SubReddit_Description = ''Go'', SubReddit_CreatorID = ''u1'',
                    SubReddit_MemberCount = 0, SubReddit_PostCount = 0,
                    SubReddit_CreatedAt = 3, SubReddit_Members = [(''u1'', True)]\<rparr>"
    by code_simp
  have m: "Load (SubReddit_Members \<lparr>SubReddit_ID = ''s1'', SubReddit_Name = ''golang'',
                    SubReddit_Description = ''Go'', SubReddit_CreatorID = ''u1'',
                    SubReddit_MemberCount = 0, SubReddit_PostCount = 0,
                    SubReddit_CreatedAt = 3, SubReddit_Members = [(''u1'', True)]\<rparr>) ''u2'' = None"
    by code_simp
  have p: "map_option Post_AuthorID
     (Load (posts (snd (CreatePost ''t'' ''b'' ''u2'' ''s1'' ''p4'' 11
                          (snd (JoinSubReddit ''u2'' ''s1'' demo))))) ''p4'') = Some ''u2''"
    by code_simp
  from CreatePost_membership_gate [OF u s, of "''t''" "''b''" "''p4''" 11] m
  have "fst (CreatePost ''t'' ''b'' ''u2'' ''s1'' ''p4'' 11 demo) = Inl NotAMember"
    and "fst (JoinSubReddit ''u2'' ''s1'' demo) = None"
    by blast+
  with u s p show ?thesis by simp
qed

section \<open>The feed\<close>

text \<open>The map \<open>userSubscriptions\<close> holds exactly the subreddits of \<open>memberOf\<close>.\<close>

lemma fold_subscriptions:
  "fold (\<lambda>subreddit subs.
           if Load (SubReddit_Members subreddit) userID \<noteq> None
           then subs(SubReddit_ID subreddit := True) else subs) srs acc k
   \<longleftrightarrow> acc k \<or> (\<exists>sr\<in>set srs. Load (SubReddit_Members sr) userID \<noteq> None \<and> SubReddit_ID sr = k)"
  by (induction srs arbitrary: acc) auto

lemma userSubscriptions_iff:
  "userSubscriptions userID e k \<longleftrightarrow> k \<in> set (memberOf userID e)"
  unfolding userSubscriptions_def memberOf_def by (subst fold_subscriptions) auto

text \<open>
  C5.  \<open>GetFeed\<close> never fails, and the posts it returns are exactly the stored posts
  whose subreddit is one that has the user as a member.  The result depends on what
  the stores hold only: two engines that hold the same posts and the same subreddits,
  in whatever order the posts were stored, give feeds with the same posts.
\<close>

theorem GetFeed_exact:
  "(case GetFeed userID e of
      Inl er \<Rightarrow> False
    | Inr feed \<Rightarrow>
        set feed = {post \<in> set (RangeValues (posts e)).
                      Post_SubRedditID post \<in> set (memberOf userID e)}) \<and>
   (set (posts e') = set (posts e) \<and> set (subreddits e') = set (subreddits e) \<longrightarrow>
      map_sum id set (GetFeed userID e') = map_sum id set (GetFeed userID e))"
proof -
  have feed: "set (filter (\<lambda>post. userSubscriptions userID x (Post_SubRedditID post))
                 (RangeValues (posts x))) =
              {post \<in> set (RangeValues (posts x)).
                 Post_SubRedditID post \<in> set (memberOf userID x)}"
    for x
    by (simp add: userSubscriptions_iff)
  have same: "set (RangeValues (posts e')) = set (RangeValues (posts e)) \<and>
              set (memberOf userID e') = set (memberOf userID e)"
    if "set (posts e') = set (posts e)" "set (subreddits e') = set (subreddits e)"
    using that by (simp add: RangeValues_def memberOf_def)
  show ?thesis
    unfolding GetFeed_def using feed same by auto
qed

theorem GetFeed_exact_witness:
  "memberOf ''u1'' demo = [''s1'', ''s2''] \<and>
   map_sum id (map Post_ID) (GetFeed ''u1'' demo) = Inr [''p1'', ''p2''] \<and>
   map Post_ID (filter (\<lambda>post. Post_SubRedditID post \<in> set (memberOf ''u1'' demo))
                  (RangeValues (posts demo))) = [''p1'', ''p2''] \<and>
   (case GetFeed ''u1'' demo of
      Inl er \<Rightarrow> False
    | Inr feed \<Rightarrow>
        set feed = {post \<in> set (RangeValues (posts demo)).
                      Post_SubRedditID post \<in> set (memberOf ''u1'' demo)})"
proof -
  have a: "memberOf ''u1'' demo = [''s1'', ''s2'']" by code_simp
  have b: "map_sum id (map Post_ID) (GetFeed ''u1'' demo) = Inr [''p1'', ''p2'']" by code_simp
  have c: "map Post_ID (filter (\<lambda>post. Post_SubRedditID post \<in> set (memberOf ''u1'' demo))
                  (RangeValues (posts demo))) = [''p1'', ''p2'']" by code_simp
  from a b c GetFeed_exact [where userID = "''u1''" and e = demo and e' = demo] show ?thesis by blast
qed

section \<open>Failed calls\<close>

text \<open>
  C6.  A call of any method of the engine (\<open>RegisterAccount\<close>, \<open>CreateSubReddit\<close>,
  \<open>JoinSubReddit\<close>, \<open>LeaveSubReddit\<close>, \<open>CreatePost\<close>, \<open>CreateComment\<close>, \<open>Vote\<close>,
  \<open>SendDirectMessage\<close>, \<open>GetMessage\<close> and the reading methods) that returns an error
  leaves the whole engine, every store and every field of every entity, as it was
  before the call.
\<close>

theorem failed_call_leaves_engine:
  "fst (exec c e) = Some er \<Longrightarrow> snd (exec c e) = e"
  by (cases c)
     (auto simp: op_defs errorOf_def Let_def split: option.splits sum.splits if_splits)

theorem failed_call_leaves_engine_witness:
  "snd (exec (CallRegisterAccount ''bob'' ''pw'' (Inr ''h'') ''u3'' 11) demo) = demo \<and>
   snd (exec (CallCreateSubReddit ''n'' ''d'' ''u9'' ''s4'' 11) demo) = demo \<and>
   snd (exec (CallJoinSubReddit ''u9'' ''s1'') demo) = demo \<and>
   snd (exec (CallLeaveSubReddit ''u1'' ''s9'') demo) = demo \<and>
   snd (exec (CallCreatePost ''t'' ''b'' ''u2'' ''s1'' ''p4'' 11) demo) = demo \<and>
   snd (exec (CallCreateComment ''re'' ''u1'' ''p1'' (Some ''c9'') ''c2'' 11) demo) = demo \<and>
   snd (exec (CallVote ''u1'' ''p9'' True 11) demo) = demo \<and>
   snd (exec (CallSendDirectMessage ''u1'' ''u9'' ''hi'' ''m2'' 11) demo) = demo \<and>
   snd (exec (CallGetMessage ''u3'' ''m1'') demo) = demo"
proof -
  have "fst (exec (CallRegisterAccount ''bob'' ''pw'' (Inr ''h'') ''u3'' 11) demo)
          = Some UsernameAlreadyExists"
    and "fst (exec (CallCreateSubReddit ''n'' ''d'' ''u9'' ''s4'' 11) demo) = Some CreatorNotFound"
    and "fst (exec (CallJoinSubReddit ''u9'' ''s1'') demo) = Some UserNotFound"
    and "fst (exec (CallLeaveSubReddit ''u1'' ''s9'') demo) = Some SubredditNotFound"
    and "fst (exec (CallCreatePost ''t'' ''b'' ''u2'' ''s1'' ''p4'' 11) demo) = Some NotAMember"
    and "fst (exec (CallCreateComment ''re'' ''u1'' ''p1'' (Some ''c9'') ''c2'' 11) demo)
          = Some ParentCommentNotFound"
    and "fst (exec (CallVote ''u1'' ''p9'' True 11) demo) = Some TargetNotFound"
    and "fst (exec (CallSendDirectMessage ''u1'' ''u9'' ''hi'' ''m2'' 11) demo)
          = Some RecipientNotFound"
    and "fst (exec (CallGetMessage ''u3'' ''m1'') demo) = Some UnauthorizedAccess"
    by code_simp+
  then show ?thesis
    by (intro conjI failed_call_leaves_engine)
qed

section \<open>Messages\<close>

text \<open>
  C7.  For a message \<open>m\<close> stored under \<open>messageID\<close>, \<open>GetMessage\<close> fails with the
  unauthorized error exactly when the user is neither the sender nor the recipient of
  \<open>m\<close>, and returns \<open>m\<close> when the user is the sender or the recipient; for an
  identifier that the message store does not hold it fails with the not-found error.
\<close>

theorem GetMessage_authorization:
  "(Load (messages e) messageID = Some m \<longrightarrow>
      (GetMessage userID messageID e = Inl UnauthorizedAccess \<longleftrightarrow>
         DirectMessage_FromID m \<noteq> userID \<and> DirectMessage_ToID m \<noteq> userID) \<and>
      (DirectMessage_FromID m = userID \<or> DirectMessage_ToID m = userID \<longrightarrow>
         GetMessage userID messageID e = Inr m)) \<and>
   (Load (messages e) messageID = None \<longrightarrow>
      GetMessage userID messageID e = Inl MessageNotFound)"
  by (auto simp: GetMessage_def)

theorem GetMessage_authorization_witness:
  "map_option DirectMessage_FromID (Load (messages demo) ''m1'') = Some ''u1'' \<and>
   map_option DirectMessage_ToID (Load (messages demo) ''m1'') = Some ''u2'' \<and>
   GetMessage ''u3'' ''m1'' demo = Inl UnauthorizedAccess \<and>
   map_sum id Some (GetMessage ''u1'' ''m1'' demo) = Inr (Load (messages demo) ''m1'') \<and>
   map_sum id Some (GetMessage ''u2'' ''m1'' demo) = Inr (Load (messages demo) ''m1'') \<and>
   Load (messages demo) ''m9'' = None \<and>
   GetMessage ''u1'' ''m9'' demo = Inl MessageNotFound"
proof -
  let ?m = "\<lparr>DirectMessage_ID = ''m1'', DirectMessage_FromID = ''u1'',
             DirectMessage_ToID = ''u2'', DirectMessage_Content = ''hello'',
             DirectMessage_IsRead = False, DirectMessage_CreatedAt = 10\<rparr>"
  have m: "Load (messages demo) ''m1'' = Some ?m" by code_simp
  have n: "Load (messages demo) ''m9'' = None" by code_simp
  have "GetMessage ''u3'' ''m1'' demo = Inl UnauthorizedAccess"
    using GetMessage_authorization [where e = demo and messageID = "''m1''" and m = ?m and userID = "''u3''"] m by simp
  moreover have "GetMessage ''u1'' ''m1'' demo = Inr ?m"
    using GetMessage_authorization [where e = demo and messageID = "''m1''" and m = ?m and userID = "''u1''"] m by simp
  moreover have "GetMessage ''u2'' ''m1'' demo = Inr ?m"
    using GetMessage_authorization [where e = demo and messageID = "''m1''" and m = ?m and userID = "''u2''"] m by simp
  moreover have "GetMessage ''u1'' ''m9'' demo = Inl MessageNotFound"
    using GetMessage_authorization [where e = demo and messageID = "''m9''" and userID = "''u1''"] n by simp
  ultimately show ?thesis using m n by simp
qed

section \<open>Membership\<close>

text \<open>
  C8.  For a user and a subreddit that exist, \<open>JoinSubReddit\<close> succeeds, a second
  \<open>JoinSubReddit\<close> right after it succeeds too, and the engine after the second call
  is the engine after the first.
\<close>

theorem JoinSubReddit_idempotent:
  assumes "Load (users e) userID = Some u" and "Load (subreddits e) subredditID = Some sr"
  shows "fst (JoinSubReddit userID subredditID e) = None \<and>
         fst (JoinSubReddit userID subredditID (snd (JoinSubReddit userID subredditID e))) = None \<and>
         snd (JoinSubReddit userID subredditID (snd (JoinSubReddit userID subredditID e))) =
           snd (JoinSubReddit userID subredditID e)"
  using assms by (simp add: JoinSubReddit_def Load_Store Store_Store)

theorem JoinSubReddit_idempotent_witness:
  "Load (users demo) ''u2'' \<noteq> None \<and> Load (subreddits demo) ''s1'' \<noteq> None \<and>
   snd (JoinSubReddit ''u2'' ''s1'' demo) \<noteq> demo \<and>
   fst (JoinSubReddit ''u2'' ''s1'' demo) = None \<and>
   fst (JoinSubReddit ''u2'' ''s1'' (snd (JoinSubReddit ''u2'' ''s1'' demo))) = None \<and>
   snd (JoinSubReddit ''u2'' ''s1'' (snd (JoinSubReddit ''u2'' ''s1'' demo))) =
     snd (JoinSubReddit ''u2'' ''s1'' demo)"
proof -
  have u: "Load (users demo) ''u2'' =
             Some \<lparr>User_ID = ''u2'', User_Username = ''bob'', User_Password = ''h2'',
                    User_Karma = 0, User_IsOnline = False, User_CreatedAt = 2\<rparr>"
    by code_simp
  have s: "Load (subreddits demo) ''s1'' =
             Some \<lparr>SubReddit_ID = ''s1'', SubReddit_Name = ''golang'',
                    SubReddit_Description = ''Go'', SubReddit_CreatorID = ''u1'',
                    SubReddit_MemberCount = 0, SubReddit_PostCount = 0,
                    SubReddit_CreatedAt = 3, SubReddit_Members = [(''u1'', True)]\<rparr>"
    by code_simp
  have d: "snd (JoinSubReddit ''u2'' ''s1'' demo) \<noteq> demo" by code_simp
  from JoinSubReddit_idempotent [OF u s] u s d show ?thesis by simp
qed

text \<open>
  C9.  \<open>LeaveSubReddit\<close> looks the subreddit up and nothing else.  For an unknown
  subreddit it returns the not-found error and leaves the engine alone; this is the
  only error it returns.  For a subreddit that exists it succeeds for every user
  identifier, one that names no user included, and the subreddit is afterwards
  stored without that member and with every other member as before.
  \<open>JoinSubReddit\<close> on the same subreddit fails for an identifier that names no user.
\<close>

theorem LeaveSubReddit_checks_subreddit_only:
  "(Load (subreddits e) subredditID = None \<longrightarrow>
      LeaveSubReddit userID subredditID e = (Some SubredditNotFound, e)) \<and>
   (Load (subreddits e) subredditID = Some subreddit \<longrightarrow>
      fst (LeaveSubReddit userID subredditID e) = None \<and>
      Load (subreddits (snd (LeaveSubReddit userID subredditID e))) subredditID =
        Some (subreddit\<lparr>SubReddit_Members := Delete userID (SubReddit_Members subreddit)\<rparr>) \<and>
      Load (Delete userID (SubReddit_Members subreddit)) userID = None \<and>
      (\<forall>other. other \<noteq> userID \<longrightarrow>
         Load (Delete userID (SubReddit_Members subreddit)) other =
           Load (SubReddit_Members subreddit) other) \<and>
      (Load (users e) userID = None \<longrightarrow>
         fst (JoinSubReddit userID subredditID e) = Some UserNotFound)) \<and>
   (fst (LeaveSubReddit userID subredditID e) = Some er \<longrightarrow>
      er = SubredditNotFound \<and> Load (subreddits e) subredditID = None)"
  by (auto simp: LeaveSubReddit_def JoinSubReddit_def Load_Store Load_Delete
           split: option.splits)

theorem LeaveSubReddit_checks_subreddit_only_witness:
  "Load (users demo) ''ghost'' = None \<and>
   Load (subreddits demo) ''s1'' \<noteq> None \<and>
   fst (LeaveSubReddit ''ghost'' ''s1'' demo) = None \<and>
   fst (JoinSubReddit ''ghost'' ''s1'' demo) = Some UserNotFound \<and>
   map_option SubReddit_Members (Load (subreddits (snd (LeaveSubReddit ''u1'' ''s1'' demo))) ''s1'')
     = Some [] \<and>
   Load (subreddits demo) ''s9'' = None \<and>
   LeaveSubReddit ''u1'' ''s9'' demo = (Some SubredditNotFound, demo)"
proof -
  let ?s = "\<lparr>SubReddit_ID = ''s1'', SubReddit_Name = ''golang'',
             SubReddit_Description = ''Go'', SubReddit_CreatorID = ''u1'',
             SubReddit_MemberCount = 0, SubReddit_PostCount = 0,
             SubReddit_CreatedAt = 3, SubReddit_Members = [(''u1'', True)]\<rparr>"
  have g: "Load (users demo) ''ghost'' = None" by code_simp
  have s: "Load (subreddits demo) ''s1'' = Some ?s" by code_simp
  have n: "Load (subreddits demo) ''s9'' = None" by code_simp
  have del: "Delete ''u1'' (SubReddit_Members ?s) = []" by code_simp
  have a: "fst (LeaveSubReddit ''ghost'' ''s1'' demo) = None \<and>
           fst (JoinSubReddit ''ghost'' ''s1'' demo) = Some UserNotFound"
    using LeaveSubReddit_checks_subreddit_only
            [where e = demo and subredditID = "''s1''" and userID = "''ghost''" and subreddit = ?s]
          g s
    by blast
  have b: "map_option SubReddit_Members
             (Load (subreddits (snd (LeaveSubReddit ''u1'' ''s1'' demo))) ''s1'') = Some []"
    using LeaveSubReddit_checks_subreddit_only
            [where e = demo and subredditID = "''s1''" and userID = "''u1''" and subreddit = ?s]
          s del
    by simp
  have c: "LeaveSubReddit ''u1'' ''s9'' demo = (Some SubredditNotFound, demo)"
    using LeaveSubReddit_checks_subreddit_only
            [where e = demo and subredditID = "''s9''" and userID = "''u1''"] n
    by blast
  from g s a b n c show ?thesis by simp
qed

section \<open>Registration\<close>

text \<open>
  A registration that steps three times with no other registration in between does what
  \<open>RegisterAccount\<close> does.
\<close>

lemma registration_alone:
  "interleave [0, 0, 0] [Scan username password hashed newID now] e =
     ([Returned (fst (RegisterAccount username password hashed newID now e))],
      snd (RegisterAccount username password hashed newID now e))"
  by (cases hashed) (simp_all add: RegisterAccount_def Let_def)




section \<open>Karma\<close>

text \<open>
  \<open>Vote\<close> leaves the users, the subreddits and the messages alone; it leaves every
  post and comment other than the target alone, changes at most the two counters of
  the target, and touches the ledger under the key of the user and the target only.
\<close>

lemma Vote_frame:
  "let e' = snd (Vote userID targetID isUpvote now e)
   in users e' = users e \<and> subreddits e' = subreddits e \<and> messages e' = messages e \<and>
      (\<forall>k. k \<noteq> targetID \<longrightarrow>
         Load (posts e') k = Load (posts e) k \<and> Load (comments e') k = Load (comments e) k) \<and>
      map_option (\<lambda>post. post\<lparr>Post_Upvotes := 0, Post_Downvotes := 0\<rparr>)
          (Load (posts e') targetID) =
        map_option (\<lambda>post. post\<lparr>Post_Upvotes := 0, Post_Downvotes := 0\<rparr>)
          (Load (posts e) targetID) \<and>
      map_option (\<lambda>comment. comment\<lparr>Comment_Upvotes := 0, Comment_Downvotes := 0\<rparr>)
          (Load (comments e') targetID) =
        map_option (\<lambda>comment. comment\<lparr>Comment_Upvotes := 0, Comment_Downvotes := 0\<rparr>)
          (Load (comments e) targetID) \<and>
      (\<forall>k. k \<noteq> userID @ '':'' @ targetID \<longrightarrow> Load (votes e') k = Load (votes e) k)"
  by (cases "Load (posts e) targetID"; cases "Load (comments e) targetID";
      cases "Load (votes e) (userID @ '':'' @ targetID)"; cases isUpvote)
     (simp_all add: Vote_def Let_def Load_Store)

lemma exec_users:
  "case c of
     CallRegisterAccount username password hashed newID now \<Rightarrow>
       users (snd (exec c e)) = users e \<or>
       (\<exists>hashedPassword.
          users (snd (exec c e)) =
            Store newID
              \<lparr>User_ID = newID, User_Username = username, User_Password = hashedPassword,
                 User_Karma = 0, User_IsOnline = False, User_CreatedAt = now\<rparr>
              (users e))
   | _ \<Rightarrow> users (snd (exec c e)) = users e"
proof (cases c)
  case (CallRegisterAccount username password hashed newID now)
  then show ?thesis
    by (cases hashed) (auto simp: RegisterAccount_def Let_def)
next
  case (CallVote userID targetID isUpvote now)
  then show ?thesis by (simp add: Vote_users)
qed (auto simp: op_defs Let_def split: option.splits if_splits)

text \<open>
  C10.  After any sequence of calls on a new engine every stored user has karma 0.
  No call changes the user store, except a \<open>RegisterAccount\<close> that stores its new
  user, whose karma is 0.  In particular \<open>Vote\<close> changes nothing but the counters of
  its target and its ledger entry.
\<close>

theorem Karma_never_modified:
  "list_all (\<lambda>u. User_Karma u = 0) (RangeValues (users (run cs NewRedditEngine))) \<and>
   (case c of
      CallRegisterAccount username password hashed newID now \<Rightarrow>
        users (snd (exec c e)) = users e \<or>
        (\<exists>hashedPassword.
           users (snd (exec c e)) =
             Store newID
               \<lparr>User_ID = newID, User_Username = username, User_Password = hashedPassword,
                  User_Karma = 0, User_IsOnline = False, User_CreatedAt = now\<rparr>
               (users e))
    | _ \<Rightarrow> users (snd (exec c e)) = users e) \<and>
   (let e' = snd (Vote userID targetID isUpvote now e)
    in users e' = users e \<and> subreddits e' = subreddits e \<and> messages e' = messages e \<and>
       (\<forall>k. k \<noteq> targetID \<longrightarrow>
          Load (posts e') k = Load (posts e) k \<and> Load (comments e') k = Load (comments e) k) \<and>
       map_option (\<lambda>post. post\<lparr>Post_Upvotes := 0, Post_Downvotes := 0\<rparr>)
           (Load (posts e') targetID) =
         map_option (\<lambda>post. post\<lparr>Post_Upvotes := 0, Post_Downvotes := 0\<rparr>)
           (Load (posts e) targetID) \<and>
       map_option (\<lambda>comment. comment\<lparr>Comment_Upvotes := 0, Comment_Downvotes := 0\<rparr>)
           (Load (comments e') targetID) =
         map_option (\<lambda>comment. comment\<lparr>Comment_Upvotes := 0, Comment_Downvotes := 0\<rparr>)
           (Load (comments e) targetID) \<and>
       (\<forall>k. k \<noteq> userID @ '':'' @ targetID \<longrightarrow> Load (votes e') k = Load (votes e) k))"
proof -
  have "list_all (\<lambda>u. User_Karma u = 0) (RangeValues (users (run cs NewRedditEngine)))"
    using usersOK_run [OF usersOK_new, of cs] by (simp add: usersOK_def)
  with exec_users [of c e] Vote_frame [of userID targetID isUpvote now e]
  show ?thesis by blast
qed

theorem Karma_never_modified_witness:
  "map User_Karma
     (RangeValues (users (run (demoCalls @ [CallVote ''u2'' ''p1'' True 11,
                                            CallVote ''u1'' ''c1'' False 12]) NewRedditEngine)))
     = [0, 0] \<and>
   list_all (\<lambda>u. User_Karma u = 0)
     (RangeValues (users (run (demoCalls @ [CallVote ''u2'' ''p1'' True 11,
                                            CallVote ''u1'' ''c1'' False 12]) NewRedditEngine))) \<and>
   targetCounters ''p1'' (snd (Vote ''u2'' ''p1'' True 11 demo)) = Some (1, 0) \<and>
   users (snd (Vote ''u2'' ''p1'' True 11 demo)) = users demo \<and>
   users (snd (exec (CallVote ''u2'' ''p1'' True 11) demo)) = users demo"
proof -
  have a: "map User_Karma
     (RangeValues (users (run (demoCalls @ [CallVote ''u2'' ''p1'' True 11,
                                            CallVote ''u1'' ''c1'' False 12]) NewRedditEngine)))
     = [0, 0]"
    by code_simp
  have b: "targetCounters ''p1'' (snd (Vote ''u2'' ''p1'' True 11 demo)) = Some (1, 0)"
    by code_simp
  have c: "list_all (\<lambda>u. User_Karma u = 0)
     (RangeValues (users (run (demoCalls @ [CallVote ''u2'' ''p1'' True 11,
                                            CallVote ''u1'' ''c1'' False 12]) NewRedditEngine)))"
    using Karma_never_modified
            [where cs = "demoCalls @ [CallVote ''u2'' ''p1'' True 11,
                                      CallVote ''u1'' ''c1'' False 12]"]
    by blast
  have d: "users (snd (Vote ''u2'' ''p1'' True 11 demo)) = users demo"
    using Karma_never_modified
            [where userID = "''u2''" and targetID = "''p1''" and isUpvote = True and now = 11
               and e = demo]
    by (simp add: Let_def)
  have e: "users (snd (exec (CallVote ''u2'' ''p1'' True 11) demo)) = users demo"
    using Karma_never_modified [where c = "CallVote ''u2'' ''p1'' True 11" and e = demo]
    by simp
  from a b c d e show ?thesis by blast
qed

end
